theory Spec2Isabelle
  imports Main "HOL-Library.Char_ord" "HOL-Library.List_Lexorder" "HOL-Library.Multiset"
begin

section \<open>The car park booking ledger (src/database.ts, src/server.ts)\<close>

text \<open>
  The ledger keeps one table \<open>bookings\<close> in an SQLite file and offers four operations
  on it. The table is modelled as the list of its rows in rowid order together with the
  AUTOINCREMENT counter; every operation takes the database and returns the new one.
  A JavaScript \<open>throw\<close> is the left summand of the result.
\<close>

subsection \<open>Data model\<close>

text \<open>
  \<open>type Booking\<close>: a row of the table. A nullable column is an option; \<open>id_of\<close> is the rowid
  as the table stores it, a 64-bit integer.
\<close>

record Booking =
  id_of :: int
  date :: string
  employee_name :: "string option"
  employee_email :: "string option"
  created_at :: string

text \<open>\<open>type CreateBookingInput\<close>: an optional property is an option (None is \<open>undefined\<close>).\<close>

record CreateBookingInput =
  date_in :: string
  employee_name_in :: "string option"
  employee_email_in :: "string option"

text \<open>
  What a call can throw. All three are instances of JavaScript's \<open>Error\<close> and carry a
  message; an \<open>SqliteError\<close> carries the result code of the engine as well.
\<close>

datatype js_error =
    Error string
  | RangeError string
  | SqliteError string string

fun message :: "js_error \<Rightarrow> string" where
  "message (Error m) = m"
| "message (RangeError m) = m"
| "message (SqliteError c m) = m"

text \<open>
  The database: \<open>rows\<close> are the rows of \<open>bookings\<close> in insertion order, \<open>seq\<close> is the
  largest rowid the table has ever handed out (the \<open>sqlite_sequence\<close> entry that
  \<open>AUTOINCREMENT\<close> maintains).
\<close>

record Database =
  rows :: "Booking list"
  seq :: int

definition emptyDb :: Database where
  "emptyDb = \<lparr>rows = [], seq = 0\<rparr>"

text \<open>
  What the code reads from its host: the offset of local time from UTC in milliseconds
  (used by the date parser for strings it does not read as ISO dates) and the value of
  \<open>CURRENT_TIMESTAMP\<close> at the moment of an insertion.
\<close>

record Env =
  localTZA :: int
  now :: string

subsection \<open>JavaScript dates (ECMAScript 21.4.1, as implemented by V8)\<close>

definition msPerDay :: int where
  "msPerDay = 86400000"

definition Day :: "int \<Rightarrow> int" where
  "Day t = t div msPerDay"

definition DaysInYear :: "int \<Rightarrow> int" where
  "DaysInYear y =
     (if y mod 4 \<noteq> 0 then 365
      else if y mod 100 \<noteq> 0 then 366
      else if y mod 400 \<noteq> 0 then 365
      else 366)"

definition DayFromYear :: "int \<Rightarrow> int" where
  "DayFromYear y =
     365 * (y - 1970) + (y - 1969) div 4 - (y - 1901) div 100 + (y - 1601) div 400"

text \<open>
  \<open>YearFromTime t\<close> is the largest year whose first day is not after \<open>t\<close>. It is computed
  from an estimate that is off by at most one year (lemma \<open>YearFromDay_bounds\<close>).
\<close>

definition YearFromDay :: "int \<Rightarrow> int" where
  "YearFromDay d =
     (let e = 1970 + (d * 400) div 146097
      in if DayFromYear (e + 1) \<le> d then e + 1
         else if DayFromYear e \<le> d then e
         else e - 1)"

definition YearFromTime :: "int \<Rightarrow> int" where
  "YearFromTime t = YearFromDay (Day t)"

definition InLeapYear :: "int \<Rightarrow> int" where
  "InLeapYear t = (if DaysInYear (YearFromTime t) = 366 then 1 else 0)"

definition DayWithinYear :: "int \<Rightarrow> int" where
  "DayWithinYear t = Day t - DayFromYear (YearFromTime t)"

definition MonthFromTime :: "int \<Rightarrow> int" where
  "MonthFromTime t =
     (let d = DayWithinYear t; l = InLeapYear t
      in if d < 31 then 0
         else if d < 59 + l then 1
         else if d < 90 + l then 2
         else if d < 120 + l then 3
         else if d < 151 + l then 4
         else if d < 181 + l then 5
         else if d < 212 + l then 6
         else if d < 243 + l then 7
         else if d < 273 + l then 8
         else if d < 304 + l then 9
         else if d < 334 + l then 10
         else 11)"

definition DateFromTime :: "int \<Rightarrow> int" where
  "DateFromTime t =
     (let d = DayWithinYear t; l = InLeapYear t; m = MonthFromTime t
      in if m = 0 then d + 1
         else if m = 1 then d - 30
         else if m = 2 then d - 58 - l
         else if m = 3 then d - 89 - l
         else if m = 4 then d - 119 - l
         else if m = 5 then d - 150 - l
         else if m = 6 then d - 180 - l
         else if m = 7 then d - 211 - l
         else if m = 8 then d - 242 - l
         else if m = 9 then d - 272 - l
         else if m = 10 then d - 303 - l
         else d - 333 - l)"

definition HourFromTime :: "int \<Rightarrow> int" where
  "HourFromTime t = (t div 3600000) mod 24"

definition MinFromTime :: "int \<Rightarrow> int" where
  "MinFromTime t = (t div 60000) mod 60"

definition SecFromTime :: "int \<Rightarrow> int" where
  "SecFromTime t = (t div 1000) mod 60"

definition msFromTime :: "int \<Rightarrow> int" where
  "msFromTime t = t mod 1000"

text \<open>The number of days before month \<open>m\<close> (0 to 11) in a year of \<open>n\<close> days.\<close>

definition DaysBeforeMonth :: "int \<Rightarrow> int \<Rightarrow> int" where
  "DaysBeforeMonth n m =
     (let l = (if n = 366 then 1 else 0)
      in if m = 0 then 0
         else if m = 1 then 31
         else if m = 2 then 59 + l
         else if m = 3 then 90 + l
         else if m = 4 then 120 + l
         else if m = 5 then 151 + l
         else if m = 6 then 181 + l
         else if m = 7 then 212 + l
         else if m = 8 then 243 + l
         else if m = 9 then 273 + l
         else if m = 10 then 304 + l
         else 334 + l)"

text \<open>
  \<open>MakeDay year month date\<close>: the day number of the first of the month, plus \<open>date - 1\<close>;
  a date beyond the end of the month runs on into the following one.
\<close>

definition MakeDay :: "int \<Rightarrow> int \<Rightarrow> int \<Rightarrow> int" where
  "MakeDay year month dt =
     (let ym = year + month div 12; mn = month mod 12
      in DayFromYear ym + DaysBeforeMonth (DaysInYear ym) mn + dt - 1)"

definition MakeDate :: "int \<Rightarrow> int \<Rightarrow> int" where
  "MakeDate day time = day * msPerDay + time"

subsubsection \<open>Decimal digits\<close>

definition isDigit :: "char \<Rightarrow> bool" where
  "isDigit c = (CHR ''0'' \<le> c \<and> c \<le> CHR ''9'')"

definition digitVal :: "char \<Rightarrow> int" where
  "digitVal c = int (of_char c) - 48"

definition digitChar :: "int \<Rightarrow> char" where
  "digitChar n = ''0123456789'' ! nat n"

fun toNumber :: "string \<Rightarrow> int" where
  "toNumber cs = foldl (\<lambda>a c. 10 * a + digitVal c) 0 cs"

text \<open>\<open>padStart n\<close>: the last \<open>n\<close> decimal digits of a non-negative number, zero-filled.\<close>

fun padStart :: "nat \<Rightarrow> int \<Rightarrow> string" where
  "padStart 0 v = []"
| "padStart (Suc n) v = padStart n (v div 10) @ [digitChar (v mod 10)]"

subsubsection \<open>\<open>Date.prototype.toISOString\<close>\<close>

text \<open>
  A Date object is its time value; \<open>None\<close> is the invalid date (time value NaN), on which
  \<open>toISOString\<close> throws a RangeError. Years outside 0 to 9999 are written with a sign and
  six digits.
\<close>

definition isoYear :: "int \<Rightarrow> string" where
  "isoYear y =
     (if 0 \<le> y \<and> y \<le> 9999 then padStart 4 y
      else if y < 0 then CHR ''-'' # padStart 6 (- y)
      else CHR ''+'' # padStart 6 y)"

definition toISOString :: "int option \<Rightarrow> js_error + string" where
  "toISOString tv =
     (case tv of
        None \<Rightarrow> Inl (RangeError ''Invalid time value'')
      | Some t \<Rightarrow>
          Inr (isoYear (YearFromTime t) @ ''-'' @ padStart 2 (MonthFromTime t + 1) @ ''-''
               @ padStart 2 (DateFromTime t) @ ''T'' @ padStart 2 (HourFromTime t) @ '':''
               @ padStart 2 (MinFromTime t) @ '':'' @ padStart 2 (SecFromTime t) @ ''.''
               @ padStart 3 (msFromTime t) @ ''Z''))"

subsubsection \<open>\<open>new Date(string)\<close> on a string of the shape dddd-dd-dd\<close>

definition IsMonth :: "int \<Rightarrow> bool" where
  "IsMonth x = (1 \<le> x \<and> x \<le> 12)"

definition IsDay :: "int \<Rightarrow> bool" where
  "IsDay x = (1 \<le> x \<and> x \<le> 31)"

text \<open>
  V8 reads the three numbers \<open>a-b-c\<close> as an ISO date (year \<open>a\<close>, month \<open>b\<close>, day \<open>c\<close>, at
  midnight UTC) when \<open>b\<close> is a month number and \<open>c\<close> is at most 31; the day is not compared
  with the length of the month. Otherwise its legacy parser takes over with the same three
  numbers: when \<open>a\<close> is not a day number they are still year, month, day, and the date is
  invalid; when \<open>a\<close> is a day number they are month, day, year (a year below 50 is in the
  2000s, one below 100 in the 1900s) at midnight local time.
\<close>

definition legacyYear :: "int \<Rightarrow> int" where
  "legacyYear y =
     (if 0 \<le> y \<and> y \<le> 49 then y + 2000
      else if 50 \<le> y \<and> y \<le> 99 then y + 1900
      else y)"

definition parseDate :: "int \<Rightarrow> int \<Rightarrow> int \<Rightarrow> int \<Rightarrow> int option" where
  "parseDate tza a b c =
     (if IsMonth b \<and> IsDay c then Some (MakeDate (MakeDay a (b - 1) c) 0)
      else if \<not> IsDay a then None
      else if IsMonth a \<and> IsDay b
        then Some (MakeDate (MakeDay (legacyYear c) (a - 1) b) 0 - tza)
      else None)"

definition newDate :: "int \<Rightarrow> string \<Rightarrow> int option" where
  "newDate tza s =
     parseDate tza (toNumber (take 4 s)) (toNumber (take 2 (drop 5 s)))
       (toNumber (take 2 (drop 8 s)))"

subsection \<open>Date validation\<close>

text \<open>\<open>/^\d{4}-\d{2}-\d{2}$/.test\<close>: ten characters, digits but for the two hyphens.\<close>

fun dateRegex_test :: "string \<Rightarrow> bool" where
  "dateRegex_test [y1, y2, y3, y4, h1, m1, m2, h2, d1, d2] =
     (list_all isDigit [y1, y2, y3, y4] \<and> h1 = CHR ''-'' \<and> list_all isDigit [m1, m2]
      \<and> h2 = CHR ''-'' \<and> list_all isDigit [d1, d2])"
| "dateRegex_test s = False"

definition startsWith :: "string \<Rightarrow> string \<Rightarrow> bool" where
  "startsWith s p = (take (length p) s = p)"

definition isValidDateFormat :: "int \<Rightarrow> string \<Rightarrow> js_error + bool" where
  "isValidDateFormat tza d =
     (if \<not> dateRegex_test d then Inr False
      else case toISOString (newDate tza d) of
             Inl e \<Rightarrow> Inl e
           | Inr str \<Rightarrow> Inr (startsWith str d))"

subsection \<open>The prepared statements\<close>

text \<open>
  The engine is modelled in its normal operation: the one failure it reports is the
  violation of the \<open>UNIQUE\<close> constraint on \<open>date\<close> (no full disk, no lock that outlasts
  the busy timeout, no rowid space used up). Text is compared as SQLite's default
  collation does, byte by byte, which is the order of \<open>string\<close>.
\<close>

text \<open>\<open>SELECT * FROM bookings ORDER BY date ASC\<close>\<close>

definition statements_getAllBookings :: "Database \<Rightarrow> Booking list" where
  "statements_getAllBookings db = sort_key date (rows db)"

text \<open>\<open>SELECT * FROM bookings WHERE date = ?\<close>, first row or \<open>undefined\<close>\<close>

definition statements_getBookingByDate :: "Database \<Rightarrow> string \<Rightarrow> Booking option" where
  "statements_getBookingByDate db d = find (\<lambda>b. date b = d) (rows db)"

text \<open>\<open>SELECT * FROM bookings WHERE id = ?\<close>, first row or \<open>undefined\<close>\<close>

definition statements_getBookingById :: "Database \<Rightarrow> int \<Rightarrow> Booking option" where
  "statements_getBookingById db i = find (\<lambda>b. id_of b = i) (rows db)"

text \<open>
  What \<open>run\<close> returns for a statement that writes. The connection does not use safe
  integers, so \<open>lastInsertRowid\<close> is a JavaScript number: the 64-bit rowid converted to
  the nearest double, ties to the even mantissa. \<open>ulp n\<close> is the distance between the
  doubles around a 64-bit integer \<open>n\<close>; up to \<open>2 ^ 53\<close> every integer is a double.
\<close>

definition ulp :: "int \<Rightarrow> int" where
  "ulp n =
     (if \<bar>n\<bar> < 2 ^ 53 then 1
      else if \<bar>n\<bar> < 2 ^ 54 then 2
      else if \<bar>n\<bar> < 2 ^ 55 then 4
      else if \<bar>n\<bar> < 2 ^ 56 then 8
      else if \<bar>n\<bar> < 2 ^ 57 then 16
      else if \<bar>n\<bar> < 2 ^ 58 then 32
      else if \<bar>n\<bar> < 2 ^ 59 then 64
      else if \<bar>n\<bar> < 2 ^ 60 then 128
      else if \<bar>n\<bar> < 2 ^ 61 then 256
      else if \<bar>n\<bar> < 2 ^ 62 then 512
      else 1024)"

definition toJsNumber :: "int \<Rightarrow> int" where
  "toJsNumber n =
     (let u = ulp n; q = n div u; r = n mod u
      in if 2 * r < u then q * u
         else if u < 2 * r then (q + 1) * u
         else if even q then q * u
         else (q + 1) * u)"

record RunResult =
  changes :: nat
  lastInsertRowid :: int

text \<open>
  \<open>INSERT INTO bookings (date, employee_name, employee_email) VALUES (?, ?, ?)\<close>.
  The new rowid is one more than the largest that the table holds or has ever held;
  \<open>created_at\<close> takes its default, the current timestamp. A row with the same date makes
  the statement fail and leaves the table as it was.
\<close>

definition nextRowid :: "Database \<Rightarrow> int" where
  "nextRowid db = foldr max (map id_of (rows db)) (seq db) + 1"

definition insertedRow ::
  "Env \<Rightarrow> Database \<Rightarrow> string \<Rightarrow> string option \<Rightarrow> string option \<Rightarrow> Booking" where
  "insertedRow env db d name email =
     \<lparr>id_of = nextRowid db, date = d, employee_name = name, employee_email = email,
      created_at = now env\<rparr>"

definition statements_createBooking ::
  "Env \<Rightarrow> Database \<Rightarrow> string \<Rightarrow> string option \<Rightarrow> string option
    \<Rightarrow> (js_error + RunResult) \<times> Database" where
  "statements_createBooking env db d name email =
     (if d \<in> set (map date (rows db))
      then (Inl (SqliteError ''SQLITE_CONSTRAINT_UNIQUE''
                   ''UNIQUE constraint failed: bookings.date''), db)
      else (Inr \<lparr>changes = 1, lastInsertRowid = toJsNumber (nextRowid db)\<rparr>,
            \<lparr>rows = rows db @ [insertedRow env db d name email], seq = nextRowid db\<rparr>))"

text \<open>
  \<open>DELETE FROM bookings WHERE date = ?\<close>. Of what \<open>run\<close> returns only \<open>changes\<close>, the number
  of rows deleted, is read.
\<close>

definition statements_deleteBooking :: "Database \<Rightarrow> string \<Rightarrow> nat \<times> Database" where
  "statements_deleteBooking db d =
     (let kept = filter (\<lambda>b. date b \<noteq> d) (rows db)
      in (length (rows db) - length kept, db\<lparr>rows := kept\<rparr>))"

subsection \<open>The ledger operations (src/database.ts)\<close>

definition getAllBookings :: "Database \<Rightarrow> Booking list" where
  "getAllBookings db = statements_getAllBookings db"

definition getBookingByDate :: "Database \<Rightarrow> string \<Rightarrow> Booking option" where
  "getBookingByDate db d = statements_getBookingByDate db d"

text \<open>\<open>x || null\<close> on an optional string: \<open>undefined\<close> and the empty string are falsy.\<close>

definition orNull :: "string option \<Rightarrow> string option" where
  "orNull x = (case x of None \<Rightarrow> None | Some s \<Rightarrow> if s = [] then None else Some s)"

text \<open>\<open>error.code\<close>\<close>

fun code :: "js_error \<Rightarrow> string option" where
  "code (SqliteError c m) = Some c"
| "code e = None"

text \<open>
  \<open>createBooking\<close>. The booking returned is the one that the lookup by the number
  \<open>info.lastInsertRowid\<close> finds; the result \<open>Inr None\<close> is the \<open>undefined\<close> of a lookup that
  finds nothing. An error thrown inside the transaction rolls it back: the database
  returned with an error is the one the call started from.
\<close>

definition createBooking ::
  "Env \<Rightarrow> Database \<Rightarrow> CreateBookingInput \<Rightarrow> (js_error + Booking option) \<times> Database" where
  "createBooking env db input =
     (case isValidDateFormat (localTZA env) (date_in input) of
        Inl e \<Rightarrow> (Inl e, db)
      | Inr False \<Rightarrow> (Inl (Error ''Date must be in YYYY-MM-DD format''), db)
      | Inr True \<Rightarrow>
          (case statements_createBooking env db (date_in input)
                  (orNull (employee_name_in input)) (orNull (employee_email_in input)) of
             (Inr info, db') \<Rightarrow>
               (Inr (statements_getBookingById db' (lastInsertRowid info)), db')
           | (Inl error, db') \<Rightarrow>
               (if code error = Some ''SQLITE_CONSTRAINT_UNIQUE''
                then (Inl (Error (''Date '' @ date_in input @ '' is already booked'')), db)
                else (Inl error, db))))"

definition deleteBooking :: "Database \<Rightarrow> string \<Rightarrow> bool \<times> Database" where
  "deleteBooking db d =
     (case statements_deleteBooking db d of (info_changes, db') \<Rightarrow> (info_changes > 0, db'))"

text \<open>The row that a successful \<open>createBooking\<close> hands to the \<open>INSERT\<close>.\<close>

definition newRow :: "Env \<Rightarrow> Database \<Rightarrow> CreateBookingInput \<Rightarrow> Booking" where
  "newRow env db input =
     insertedRow env db (date_in input) (orNull (employee_name_in input))
       (orNull (employee_email_in input))"

text \<open>The two failures of \<open>createBooking\<close> that the specification names.\<close>

definition InvalidDate :: js_error where
  "InvalidDate = Error ''Date must be in YYYY-MM-DD format''"

definition DateAlreadyBooked :: "string \<Rightarrow> js_error" where
  "DateAlreadyBooked d = Error (''Date '' @ d @ '' is already booked'')"

subsection \<open>Sequences of ledger operations\<close>

datatype ledger_op =
    Create Env CreateBookingInput
  | DeleteByDate string
  | GetByDate string
  | ListOrdered

text \<open>The database after one operation; the two reads leave it as it is.\<close>

fun apply_op :: "Database \<Rightarrow> ledger_op \<Rightarrow> Database" where
  "apply_op db (Create env input) = snd (createBooking env db input)"
| "apply_op db (DeleteByDate d) = snd (deleteBooking db d)"
| "apply_op db (GetByDate d) = db"
| "apply_op db ListOrdered = db"

definition run_ops :: "Database \<Rightarrow> ledger_op list \<Rightarrow> Database" where
  "run_ops db ops = foldl apply_op db ops"

text \<open>The live bookings for a date.\<close>

definition live :: "Database \<Rightarrow> string \<Rightarrow> Booking list" where
  "live db d = filter (\<lambda>b. date b = d) (rows db)"

subsection \<open>\<open>POST /api/bookings\<close> (src/server.ts)\<close>

text \<open>\<open>String.prototype.includes\<close>\<close>

fun includes_str :: "string \<Rightarrow> string \<Rightarrow> bool" where
  "includes_str [] p = (p = [])"
| "includes_str (c # cs) p = (startsWith (c # cs) p \<or> includes_str cs p)"

record RequestBody =
  date_req :: "string option"
  employee_name_req :: "string option"
  employee_email_req :: "string option"

datatype json = ErrorJson string | BookingJson "Booking option"

text \<open>
  The handler: the status and the JSON body of the response, and the database. The three
  properties of the request body are strings or absent, as \<open>CreateBookingInput\<close> types
  them; \<open>!date\<close> holds for the absent and for the empty string.
\<close>

definition post_api_bookings ::
  "Env \<Rightarrow> Database \<Rightarrow> RequestBody \<Rightarrow> (nat \<times> json) \<times> Database" where
  "post_api_bookings env db body =
     (case date_req body of
        None \<Rightarrow> ((400, ErrorJson ''Date is required''), db)
      | Some d \<Rightarrow>
          if d = [] then ((400, ErrorJson ''Date is required''), db)
          else
            (case createBooking env db
                    \<lparr>date_in = d, employee_name_in = employee_name_req body,
                     employee_email_in = employee_email_req body\<rparr> of
               (Inr booking, db') \<Rightarrow> ((201, BookingJson booking), db')
             | (Inl error, db') \<Rightarrow>
                 (if includes_str (message error) ''Invalid date format''
                  then ((400, ErrorJson (message error)), db')
                  else if includes_str (message error) ''already booked''
                  then ((409, ErrorJson (message error)), db')
                  else ((500, ErrorJson ''Failed to create booking''), db'))))"

subsection \<open>Repeated attempts (the test \<open>Concurrency handling\<close>)\<close>

text \<open>
  The test calls \<open>createBooking\<close> for each attempt in turn and catches what it throws.
  Every call runs to its end before the next one starts; the list of the outcomes and the
  final database are returned.
\<close>

fun attempts_forEach ::
  "Database \<Rightarrow> (Env \<times> CreateBookingInput) list
    \<Rightarrow> ((js_error + Booking option) list) \<times> Database" where
  "attempts_forEach db [] = ([], db)"
| "attempts_forEach db ((env, input) # rest) =
     (case createBooking env db input of
        (r, db') \<Rightarrow>
          (case attempts_forEach db' rest of (rs, db'') \<Rightarrow> (r # rs, db'')))"

section \<open>Properties\<close>

subsection \<open>The year of a day number\<close>

lemma div_lower:
  fixes x k :: int
  assumes "0 < k"
  shows "k * (x div k) \<le> x"
proof -
  have "x = k * (x div k) + x mod k" by simp
  moreover have "0 \<le> x mod k" using assms by simp
  ultimately show ?thesis by linarith
qed

lemma div_upper:
  fixes x k :: int
  assumes "0 < k"
  shows "x < k * (x div k) + k"
proof -
  have "x = k * (x div k) + x mod k" by simp
  moreover have "x mod k < k" using assms by simp
  ultimately show ?thesis by linarith
qed

lemma DayFromYear_lower: "146097 * y - 287811596 \<le> 400 * DayFromYear y"
proof -
  define a where "a = (y - 1969) div 4"
  define b where "b = (y - 1901) div 100"
  define c where "c = (y - 1601) div 400"
  have a: "y - 1969 < 4 * a + 4"
    unfolding a_def by (rule div_upper) simp
  have b: "100 * b \<le> y - 1901"
    unfolding b_def by (rule div_lower) simp
  have c: "y - 1601 < 400 * c + 400"
    unfolding c_def by (rule div_upper) simp
  have "DayFromYear y = 365 * y - 719050 + a - b + c"
    by (simp add: DayFromYear_def a_def b_def c_def)
  with a b c show ?thesis by linarith
qed

lemma DayFromYear_upper: "400 * DayFromYear y \<le> 146097 * y - 287810501"
proof -
  define a where "a = (y - 1969) div 4"
  define b where "b = (y - 1901) div 100"
  define c where "c = (y - 1601) div 400"
  have a: "4 * a \<le> y - 1969"
    unfolding a_def by (rule div_lower) simp
  have b: "y - 1901 < 100 * b + 100"
    unfolding b_def by (rule div_upper) simp
  have c: "400 * c \<le> y - 1601"
    unfolding c_def by (rule div_lower) simp
  have "DayFromYear y = 365 * y - 719050 + a - b + c"
    by (simp add: DayFromYear_def a_def b_def c_def)
  with a b c show ?thesis by linarith
qed

text \<open>
  \<open>YearFromDay\<close> computes the year of ECMAScript's \<open>YearFromTime\<close>: the day lies between
  the first day of that year and the first day of the next.
\<close>

lemma YearFromDay_bounds:
  "DayFromYear (YearFromDay d) \<le> d \<and> d < DayFromYear (YearFromDay d + 1)"
proof -
  define e where "e = 1970 + (d * 400) div 146097"
  have "146097 * ((d * 400) div 146097) \<le> d * 400"
    by (rule div_lower) simp
  then have e1: "146097 * e - 287811090 \<le> 400 * d"
    unfolding e_def by simp
  have "d * 400 < 146097 * ((d * 400) div 146097) + 146097"
    by (rule div_upper) simp
  then have e2: "400 * d < 146097 * e - 287664993"
    unfolding e_def by simp
  have "400 * DayFromYear (e - 1) \<le> 146097 * e - 287956598"
    using DayFromYear_upper [of "e - 1"] by (simp add: algebra_simps)
  with e1 have lo: "DayFromYear (e - 1) \<le> d"
    by linarith
  have "146097 * e - 287519402 \<le> 400 * DayFromYear (e + 2)"
    using DayFromYear_lower [of "e + 2"] by (simp add: algebra_simps)
  with e2 have hi: "d < DayFromYear (e + 2)"
    by linarith
  have "YearFromDay d = (if DayFromYear (e + 1) \<le> d then e + 1
         else if DayFromYear e \<le> d then e else e - 1)"
    by (simp add: YearFromDay_def e_def Let_def)
  with lo hi show ?thesis
    by (auto simp: add.commute)
qed

subsection \<open>Evaluating the date check\<close>

lemma padStart_numeral [simp]:
  "padStart (numeral k) v = padStart (pred_numeral k) (v div 10) @ [digitChar (v mod 10)]"
  by (simp add: numeral_eq_Suc)

lemmas date_defs = isValidDateFormat_def newDate_def parseDate_def toISOString_def
  startsWith_def IsMonth_def IsDay_def isDigit_def digitVal_def MakeDate_def MakeDay_def
  DayFromYear_def DaysBeforeMonth_def DaysInYear_def msPerDay_def YearFromTime_def
  YearFromDay_def Day_def MonthFromTime_def DateFromTime_def DayWithinYear_def
  InLeapYear_def isoYear_def digitChar_def HourFromTime_def MinFromTime_def
  SecFromTime_def msFromTime_def legacyYear_def Let_def

text \<open>Leap years, and the first and the last date that the four-digit shape can name.\<close>

lemma isValidDateFormat_examples:
  "isValidDateFormat tza ''2024-02-29'' = Inr True"
  "isValidDateFormat tza ''2025-02-29'' = Inr False"
  "isValidDateFormat tza ''1900-02-29'' = Inr False"
  "isValidDateFormat tza ''2000-02-29'' = Inr True"
  "isValidDateFormat tza ''0000-01-01'' = Inr True"
  "isValidDateFormat tza ''9999-12-31'' = Inr True"
  "isValidDateFormat tza ''2025-04-31'' = Inr False"
  "isValidDateFormat tza ''2025-00-10'' = Inl (RangeError ''Invalid time value'')"
  "isValidDateFormat tza ''2025-12-32'' = Inl (RangeError ''Invalid time value'')"
  by (simp_all add: date_defs)

subsection \<open>What a call of \<open>createBooking\<close> does\<close>

lemma id_le_foldr_max: "b \<in> set bs \<Longrightarrow> id_of b \<le> foldr max (map id_of bs) s"
  by (induction bs) auto

lemma id_less_nextRowid: "b \<in> set (rows db) \<Longrightarrow> id_of b < nextRowid db"
  using id_le_foldr_max [of b "rows db" "seq db"] by (simp add: nextRowid_def)

lemma find_append_last:
  "\<forall>x\<in>set xs. \<not> P x \<Longrightarrow> P y \<Longrightarrow> find P (xs @ [y]) = Some y"
  by (induction xs) auto

lemma createBooking_invalid:
  "isValidDateFormat (localTZA env) (date_in input) = Inr False
   \<Longrightarrow> createBooking env db input = (Inl InvalidDate, db)"
  by (simp add: createBooking_def InvalidDate_def)

lemma createBooking_throws:
  "isValidDateFormat (localTZA env) (date_in input) = Inl e
   \<Longrightarrow> createBooking env db input = (Inl e, db)"
  by (simp add: createBooking_def)

lemma createBooking_duplicate:
  "isValidDateFormat (localTZA env) (date_in input) = Inr True
   \<Longrightarrow> date_in input \<in> set (map date (rows db))
   \<Longrightarrow> createBooking env db input = (Inl (DateAlreadyBooked (date_in input)), db)"
  by (simp add: createBooking_def statements_createBooking_def DateAlreadyBooked_def)

text \<open>Every integer up to \<open>2 ^ 53\<close> in absolute value is a JavaScript number.\<close>

lemma toJsNumber_exact:
  assumes "\<bar>n\<bar> \<le> 2 ^ 53"
  shows "toJsNumber n = n"
proof (cases "\<bar>n\<bar> < 2 ^ 53")
  case True
  then show ?thesis
    by (simp add: toJsNumber_def ulp_def)
next
  case False
  with assms have "n = 2 ^ 53 \<or> n = - (2 ^ 53)"
    by linarith
  then show ?thesis
    by (auto simp: toJsNumber_def ulp_def)
qed

lemma createBooking_fresh:
  assumes "isValidDateFormat (localTZA env) (date_in input) = Inr True"
    and "date_in input \<notin> set (map date (rows db))"
  shows "createBooking env db input =
     (Inr (statements_getBookingById
             \<lparr>rows = rows db @ [newRow env db input], seq = nextRowid db\<rparr>
             (toJsNumber (nextRowid db))),
      \<lparr>rows = rows db @ [newRow env db input], seq = nextRowid db\<rparr>)"
  using assms
  by (simp add: createBooking_def statements_createBooking_def newRow_def)

text \<open>The lookup finds the new row when its rowid is a JavaScript number.\<close>

lemma getBookingById_new:
  assumes "toJsNumber (nextRowid db) = nextRowid db"
  shows "statements_getBookingById
           \<lparr>rows = rows db @ [newRow env db input], seq = s\<rparr> (toJsNumber (nextRowid db))
         = Some (newRow env db input)"
proof -
  have "find (\<lambda>b. id_of b = nextRowid db) (rows db @ [newRow env db input])
        = Some (newRow env db input)"
  proof (rule find_append_last)
    show "\<forall>x\<in>set (rows db). \<not> id_of x = nextRowid db"
      using id_less_nextRowid [of _ db] by fastforce
    show "id_of (newRow env db input) = nextRowid db"
      by (simp add: newRow_def insertedRow_def)
  qed
  with assms show ?thesis
    by (simp add: statements_getBookingById_def)
qed

lemma createBooking_success:
  assumes "createBooking env db input = (Inr r, db')"
  shows "isValidDateFormat (localTZA env) (date_in input) = Inr True
     \<and> date_in input \<notin> set (map date (rows db))
     \<and> r = statements_getBookingById db' (toJsNumber (nextRowid db))
     \<and> db' = \<lparr>rows = rows db @ [newRow env db input], seq = nextRowid db\<rparr>"
proof (cases "isValidDateFormat (localTZA env) (date_in input)")
  case (Inl e)
  with assms show ?thesis by (simp add: createBooking_throws)
next
  case (Inr v)
  show ?thesis
  proof (cases v)
    case False
    with Inr assms show ?thesis by (simp add: createBooking_invalid)
  next
    case True
    show ?thesis
    proof (cases "date_in input \<in> set (map date (rows db))")
      case dup: True
      from createBooking_duplicate [of env input db] Inr True dup assms
      show ?thesis by simp
    next
      case fresh: False
      from createBooking_fresh [of env input db] Inr True fresh assms
      show ?thesis by auto
    qed
  qed
qed

lemma createBooking_success_exact:
  assumes "createBooking env db input = (Inr r, db')"
    and "toJsNumber (nextRowid db) = nextRowid db"
  shows "r = Some (newRow env db input)"
  using createBooking_success [OF assms(1)] getBookingById_new [OF assms(2)]
  by simp

lemma createBooking_failure:
  assumes "createBooking env db input = (Inl e, db')"
  shows "db' = db"
  using assms
  by (auto simp: createBooking_def statements_createBooking_def
      split: sum.splits bool.splits if_splits)

lemma createBooking_rows:
  "rows (snd (createBooking env db input)) = rows db
   \<or> (date_in input \<notin> set (map date (rows db))
      \<and> rows (snd (createBooking env db input)) = rows db @ [newRow env db input])"
proof (cases "createBooking env db input")
  case (Pair res db')
  show ?thesis
  proof (cases res)
    case (Inl e)
    with Pair createBooking_failure [of env db input e db'] show ?thesis by simp
  next
    case (Inr r)
    with Pair createBooking_success [of env db input r db'] show ?thesis by simp
  qed
qed

lemma date_newRow [simp]: "date (newRow env db input) = date_in input"
  by (simp add: newRow_def insertedRow_def)

subsection \<open>One booking per date\<close>

lemma distinct_dates_apply_op:
  assumes "distinct (map date (rows db))"
  shows "distinct (map date (rows (apply_op db op)))"
proof (cases op)
  case (Create env input)
  from createBooking_rows [of env db input] assms show ?thesis
    unfolding Create by auto
next
  case (DeleteByDate d)
  with assms show ?thesis
    by (simp add: deleteBooking_def statements_deleteBooking_def Let_def distinct_map_filter)
qed (use assms in simp_all)

lemma distinct_dates_run_ops:
  "distinct (map date (rows db)) \<Longrightarrow> distinct (map date (rows (run_ops db ops)))"
  unfolding run_ops_def
  by (induction ops arbitrary: db) (simp_all add: distinct_dates_apply_op)

lemma distinct_filter_le1:
  "distinct (map f xs) \<Longrightarrow> length (filter (\<lambda>x. f x = k) xs) \<le> 1"
proof (induction xs)
  case Nil
  then show ?case by simp
next
  case (Cons a xs)
  show ?case
  proof (cases "f a = k")
    case True
    with Cons.prems have "filter (\<lambda>x. f x = k) xs = []"
      by (auto simp: filter_empty_conv image_iff)
    with True show ?thesis by simp
  next
    case False
    with Cons show ?thesis by simp
  qed
qed

text \<open>
  C1 (uniqueness). Start from the empty table and run any sequence of ledger operations
  (create, delete by date, get by date, list); stop after any number \<open>n\<close> of them. For
  every date string \<open>d\<close>, the table then holds at most one booking whose date is \<open>d\<close>.
\<close>

theorem ledger_uniqueness:
  "length (live (run_ops emptyDb (take n ops)) d) \<le> 1"
proof -
  have "distinct (map date (rows (run_ops emptyDb (take n ops))))"
    by (rule distinct_dates_run_ops) (simp add: emptyDb_def)
  then show ?thesis
    unfolding live_def by (rule distinct_filter_le1)
qed

subsection \<open>Rejected dates\<close>

lemma createBooking_rejects_non_matching:
  "\<not> dateRegex_test (date_in input) \<Longrightarrow> createBooking env db input = (Inl InvalidDate, db)"
  by (simp add: createBooking_invalid isValidDateFormat_def)

text \<open>The four dates of the specification's P2 are rejected, and nothing is stored.\<close>

lemma createBooking_rejects_examples:
  "createBooking env db \<lparr>date_in = ''2025/12/03'', employee_name_in = n, employee_email_in = m\<rparr>
     = (Inl InvalidDate, db)"
  "createBooking env db \<lparr>date_in = ''12-03-2025'', employee_name_in = n, employee_email_in = m\<rparr>
     = (Inl InvalidDate, db)"
  "createBooking env db \<lparr>date_in = ''not-a-date'', employee_name_in = n, employee_email_in = m\<rparr>
     = (Inl InvalidDate, db)"
  "createBooking env db \<lparr>date_in = ''2025-02-30'', employee_name_in = n, employee_email_in = m\<rparr>
     = (Inl InvalidDate, db)"
     apply (rule createBooking_invalid, simp add: date_defs)
    apply (rule createBooking_invalid, simp add: date_defs)
   apply (rule createBooking_invalid, simp add: date_defs)
  apply (rule createBooking_invalid, simp add: date_defs)
  done

text \<open>
  A string of the right shape whose month is not 1 to 12 (and whose year is not a day
  number, so that the legacy reading does not apply) gives the invalid date, and
  \<open>toISOString\<close> throws on it.
\<close>

lemma createBooking_month_out_of_range:
  assumes "dateRegex_test (date_in input)"
    and "\<not> IsMonth (toNumber (take 2 (drop 5 (date_in input))))"
    and "\<not> IsDay (toNumber (take 4 (date_in input)))"
  shows "createBooking env db input = (Inl (RangeError ''Invalid time value''), db)"
  using assms
  by (intro createBooking_throws)
    (simp add: isValidDateFormat_def newDate_def parseDate_def toISOString_def)

text \<open>
  C3 (invalid-date rejection), at the date \<open>2025-13-01\<close>. The string has the shape
  dddd-dd-dd and names no calendar date. \<open>createBooking\<close> does not fail with the error
  \<open>Date must be in YYYY-MM-DD format\<close>: the date parser yields the invalid date,
  \<open>toISOString\<close> throws, and the call fails with that RangeError, whatever the database
  and the other two fields are. The database is left as it was.
\<close>

theorem createBooking_month_13_throws_RangeError:
  "createBooking env db
     \<lparr>date_in = ''2025-13-01'', employee_name_in = n, employee_email_in = m\<rparr>
   = (Inl (RangeError ''Invalid time value''), db)"
  by (rule createBooking_throws) (simp add: date_defs)

subsection \<open>A date that is already booked\<close>

lemma live_nonempty: "live db d \<noteq> [] \<longleftrightarrow> d \<in> set (map date (rows db))"
  by (auto simp: live_def filter_empty_conv)

text \<open>
  C4 (duplicate-date rejection). If the date of the input passes the date check and the
  table holds a booking for that date, \<open>createBooking\<close> fails with the error whose message
  is \<open>Date <date> is already booked\<close>, and the database is the one the call started from.
\<close>

theorem createBooking_duplicate_rejected:
  assumes "isValidDateFormat (localTZA env) (date_in input) = Inr True"
    and "live db (date_in input) \<noteq> []"
  shows "createBooking env db input = (Inl (DateAlreadyBooked (date_in input)), db)
     \<and> message (DateAlreadyBooked (date_in input))
         = ''Date '' @ date_in input @ '' is already booked''"
  using assms by (simp add: createBooking_duplicate live_nonempty DateAlreadyBooked_def)

theorem createBooking_duplicate_rejected_witness:
  "isValidDateFormat 0 ''2025-12-04'' = Inr True
   \<and> live \<lparr>rows = [\<lparr>id_of = 1, date = ''2025-12-04'', employee_name = Some ''John Doe'',
                     employee_email = Some ''john@example.com'',
                     created_at = ''2025-11-30 10:00:00''\<rparr>], seq = 1\<rparr> ''2025-12-04'' \<noteq> []
   \<and> createBooking \<lparr>localTZA = 0, now = ''2025-11-30 10:00:05''\<rparr>
        \<lparr>rows = [\<lparr>id_of = 1, date = ''2025-12-04'', employee_name = Some ''John Doe'',
                     employee_email = Some ''john@example.com'',
                     created_at = ''2025-11-30 10:00:00''\<rparr>], seq = 1\<rparr>
        \<lparr>date_in = ''2025-12-04'', employee_name_in = Some ''Jane Smith'',
         employee_email_in = Some ''jane@example.com''\<rparr>
      = (Inl (Error ''Date 2025-12-04 is already booked''),
         \<lparr>rows = [\<lparr>id_of = 1, date = ''2025-12-04'', employee_name = Some ''John Doe'',
                     employee_email = Some ''john@example.com'',
                     created_at = ''2025-11-30 10:00:00''\<rparr>], seq = 1\<rparr>)"
proof -
  let ?env = "\<lparr>localTZA = 0, now = ''2025-11-30 10:00:05''\<rparr>"
  let ?db = "\<lparr>rows = [\<lparr>id_of = 1, date = ''2025-12-04'', employee_name = Some ''John Doe'',
                     employee_email = Some ''john@example.com'',
                     created_at = ''2025-11-30 10:00:00''\<rparr>], seq = 1\<rparr>"
  let ?input = "\<lparr>date_in = ''2025-12-04'', employee_name_in = Some ''Jane Smith'',
         employee_email_in = Some ''jane@example.com''\<rparr>"
  have v: "isValidDateFormat 0 ''2025-12-04'' = Inr True"
    by (simp add: date_defs)
  have l: "live ?db ''2025-12-04'' \<noteq> []"
    by (simp add: live_def)
  show ?thesis
    using v l createBooking_duplicate_rejected [of ?env ?input ?db]
    by (simp add: DateAlreadyBooked_def)
qed

subsection \<open>The status of a failed \<open>POST /api/bookings\<close>\<close>

lemma post_InvalidDate_500:
  assumes "date_req body = Some d" and "d \<noteq> []"
    and "createBooking env db \<lparr>date_in = d, employee_name_in = employee_name_req body,
           employee_email_in = employee_email_req body\<rparr> = (Inl InvalidDate, db')"
  shows "post_api_bookings env db body = ((500, ErrorJson ''Failed to create booking''), db')"
  using assms by (simp add: post_api_bookings_def InvalidDate_def startsWith_def)

lemma includes_str_append: "includes_str ys p \<Longrightarrow> includes_str (xs @ ys) p"
  by (induction xs) auto

lemma includes_str_hd: "includes_str s p \<Longrightarrow> p \<noteq> [] \<Longrightarrow> hd p \<in> set s"
proof (induction s)
  case Nil
  then show ?case by simp
next
  case (Cons c cs)
  show ?case
  proof (cases "startsWith (c # cs) p")
    case True
    with Cons.prems(2) have "hd p = c"
      by (cases p) (auto simp: startsWith_def)
    then show ?thesis by simp
  next
    case False
    with Cons show ?thesis by simp
  qed
qed

lemma dateRegex_test_chars:
  "dateRegex_test d \<Longrightarrow> c \<in> set d \<Longrightarrow> isDigit c \<or> c = CHR ''-''"
  by (erule dateRegex_test.elims) auto

lemma isValidDateFormat_regex:
  "isValidDateFormat tza d = Inr True \<Longrightarrow> dateRegex_test d"
  by (simp add: isValidDateFormat_def split: if_splits)

text \<open>The second half of the mapping holds: a date that is already booked gives 409.\<close>

lemma post_DateAlreadyBooked_409:
  assumes "date_req body = Some d"
    and "createBooking env db \<lparr>date_in = d, employee_name_in = employee_name_req body,
           employee_email_in = employee_email_req body\<rparr> = (Inl (DateAlreadyBooked d), db')"
    and "dateRegex_test d"
  shows "post_api_bookings env db body
     = ((409, ErrorJson (''Date '' @ d @ '' is already booked'')), db')"
proof -
  have ne: "d \<noteq> []"
    using assms(3) by auto
  have "CHR ''I'' \<notin> set d"
    using dateRegex_test_chars [OF assms(3), of "CHR ''I''"] by (auto simp: isDigit_def)
  then have "CHR ''I'' \<notin> set (''Date '' @ d @ '' is already booked'')"
    by simp
  then have no: "\<not> includes_str (''Date '' @ d @ '' is already booked'') ''Invalid date format''"
    using includes_str_hd [of "''Date '' @ d @ '' is already booked''" "''Invalid date format''"]
    by auto
  have "includes_str '' is already booked'' ''already booked''"
    by (simp add: startsWith_def)
  then have "includes_str ((''Date '' @ d) @ '' is already booked'') ''already booked''"
    by (rule includes_str_append)
  then have yes: "includes_str (''Date '' @ d @ '' is already booked'') ''already booked''"
    by simp
  show ?thesis
    using assms(1,2) ne no yes
    by (simp add: post_api_bookings_def DateAlreadyBooked_def del: includes_str.simps)
qed

text \<open>
  C5 (HTTP error mapping), at the request body \<open>{date: "2025/12/03"}\<close>. \<open>createBooking\<close>
  fails with \<open>Date must be in YYYY-MM-DD format\<close>; the handler looks for the words
  \<open>Invalid date format\<close> in the message, does not find them, and answers with status 500
  and the body \<open>{error: "Failed to create booking"}\<close>, not with status 400.
\<close>

theorem post_api_bookings_invalid_date_500:
  "post_api_bookings env db
     \<lparr>date_req = Some ''2025/12/03'', employee_name_req = n, employee_email_req = m\<rparr>
   = ((500, ErrorJson ''Failed to create booking''), db)"
  by (simp add: post_api_bookings_def createBooking_rejects_examples InvalidDate_def
      startsWith_def)

subsection \<open>Deleting by date\<close>

lemma deleteBooking_eq:
  "deleteBooking db d = (live db d \<noteq> [], db\<lparr>rows := filter (\<lambda>b. date b \<noteq> d) (rows db)\<rparr>)"
proof -
  have "length (filter (\<lambda>b. date b \<noteq> d) (rows db)) + length (live db d) = length (rows db)"
    unfolding live_def using sum_length_filter_compl [of "\<lambda>b. date b \<noteq> d" "rows db"] by simp
  then have "(0 < length (rows db) - length (filter (\<lambda>b. date b \<noteq> d) (rows db)))
      = (live db d \<noteq> [])"
    by (cases "live db d") auto
  then show ?thesis
    by (simp add: deleteBooking_def statements_deleteBooking_def Let_def)
qed

lemma deleteBooking_rows:
  "rows (snd (deleteBooking db d)) = filter (\<lambda>b. date b \<noteq> d) (rows db)"
  by (simp add: deleteBooking_eq)

lemma live_after_delete: "live (snd (deleteBooking db d)) d = []"
  by (simp add: deleteBooking_eq live_def)

lemma filter_id_if_no_live: "live db d = [] \<Longrightarrow> filter (\<lambda>b. date b \<noteq> d) (rows db) = rows db"
  by (auto simp: live_def filter_empty_conv filter_id_conv)

text \<open>
  C6 (delete by date). If the table holds a booking for \<open>d\<close>, \<open>deleteBooking db d\<close> returns
  true, the rows left are exactly those of the other dates, no booking for \<open>d\<close> is left, and
  a second call right after it returns false. If the table holds no booking for \<open>d\<close>, the
  call returns false and the database is unchanged.
\<close>

theorem deleteBooking_semantics:
  "(live db d \<noteq> [] \<longrightarrow>
      fst (deleteBooking db d) = True
      \<and> rows (snd (deleteBooking db d)) = filter (\<lambda>b. date b \<noteq> d) (rows db)
      \<and> live (snd (deleteBooking db d)) d = []
      \<and> fst (deleteBooking (snd (deleteBooking db d)) d) = False)
   \<and> (live db d = [] \<longrightarrow> deleteBooking db d = (False, db))"
proof (intro conjI impI)
  assume "live db d = []"
  then show "deleteBooking db d = (False, db)"
    by (simp add: deleteBooking_eq filter_id_if_no_live)
next
  show "fst (deleteBooking (snd (deleteBooking db d)) d) = False"
    using live_after_delete [of db d] deleteBooking_eq [of "snd (deleteBooking db d)" d]
    by simp
qed (simp_all add: deleteBooking_eq live_def)

theorem deleteBooking_semantics_witness:
  "live \<lparr>rows = [\<lparr>id_of = 1, date = ''2025-12-12'', employee_name = None,
                   employee_email = None, created_at = ''2025-11-30 10:00:00''\<rparr>], seq = 1\<rparr>
      ''2025-12-12'' \<noteq> []
   \<and> deleteBooking \<lparr>rows = [\<lparr>id_of = 1, date = ''2025-12-12'', employee_name = None,
                   employee_email = None, created_at = ''2025-11-30 10:00:00''\<rparr>], seq = 1\<rparr>
      ''2025-12-12'' = (True, \<lparr>rows = [], seq = 1\<rparr>)
   \<and> live \<lparr>rows = [], seq = 1\<rparr> ''2025-12-12'' = []
   \<and> deleteBooking \<lparr>rows = [], seq = 1\<rparr> ''2025-12-12'' = (False, \<lparr>rows = [], seq = 1\<rparr>)"
proof -
  let ?db = "\<lparr>rows = [\<lparr>id_of = 1, date = ''2025-12-12'', employee_name = None,
                   employee_email = None, created_at = ''2025-11-30 10:00:00''\<rparr>], seq = 1\<rparr>"
  have l: "live ?db ''2025-12-12'' \<noteq> []"
    by (simp add: live_def)
  have e: "live \<lparr>rows = [], seq = 1\<rparr> ''2025-12-12'' = []"
    by (simp add: live_def)
  have "snd (deleteBooking ?db ''2025-12-12'') = \<lparr>rows = [], seq = 1\<rparr>"
    by (simp add: deleteBooking_def statements_deleteBooking_def)
  then show ?thesis
    using l e deleteBooking_semantics [of ?db "''2025-12-12''"]
      deleteBooking_semantics [of "\<lparr>rows = [], seq = 1\<rparr>" "''2025-12-12''"]
    by (simp add: prod_eq_iff)
qed

subsection \<open>The ordered listing\<close>

text \<open>
  With other bookings in the table, as in the repository's test: if the three calls
  succeed one after the other, the listing restricted to the three dates is in date order.
\<close>

lemma getAllBookings_three_dates:
  assumes c1: "createBooking e1 db
       \<lparr>date_in = ''2025-12-10'', employee_name_in = n1, employee_email_in = m1\<rparr> = (Inr r1, db1)"
    and c2: "createBooking e2 db1
       \<lparr>date_in = ''2025-12-08'', employee_name_in = n2, employee_email_in = m2\<rparr> = (Inr r2, db2)"
    and c3: "createBooking e3 db2
       \<lparr>date_in = ''2025-12-09'', employee_name_in = n3, employee_email_in = m3\<rparr> = (Inr r3, db3)"
  shows "map date (filter (\<lambda>b. date b \<in> {''2025-12-08'', ''2025-12-09'', ''2025-12-10''})
            (getAllBookings db3))
         = [''2025-12-08'', ''2025-12-09'', ''2025-12-10'']"
proof -
  let ?P = "\<lambda>b. date b \<in> {''2025-12-08'', ''2025-12-09'', ''2025-12-10''}"
  from createBooking_success [OF c1] createBooking_success [OF c2] createBooking_success [OF c3]
  obtain b1 b2 b3 where rows3: "rows db3 = rows db @ [b1, b2, b3]"
    and d: "date b1 = ''2025-12-10''" "date b2 = ''2025-12-08''" "date b3 = ''2025-12-09''"
    and fresh: "''2025-12-10'' \<notin> set (map date (rows db))"
      "''2025-12-08'' \<notin> set (map date (rows db))"
      "''2025-12-09'' \<notin> set (map date (rows db))"
    by auto
  from fresh have "filter ?P (rows db) = []"
    by (auto simp: filter_empty_conv image_iff)
  with rows3 d have f: "filter ?P (rows db3) = [b1, b2, b3]"
    by simp
  have "filter ?P (getAllBookings db3) = sort_key date (filter ?P (rows db3))"
    by (simp add: getAllBookings_def statements_getAllBookings_def filter_sort)
  with f d show ?thesis
    by simp
qed

text \<open>
  C7 (ordered listing). \<open>getAllBookings\<close> returns a list for every database: its dates
  ascend, it holds exactly the stored rows (each as often as the table does), it is empty
  exactly when the table is, and listing leaves the database as it is. After bookings for
  2025-12-10, 2025-12-08 and 2025-12-09 have been created in this order in the empty
  table, the listing has the dates 2025-12-08, 2025-12-09, 2025-12-10.
\<close>

theorem getAllBookings_ordered:
  "sorted (map date (getAllBookings db))
   \<and> mset (getAllBookings db) = mset (rows db)
   \<and> (getAllBookings db = []) = (rows db = [])
   \<and> apply_op db ListOrdered = db
   \<and> map date (getAllBookings (run_ops emptyDb
        [Create e1 \<lparr>date_in = ''2025-12-10'', employee_name_in = n1, employee_email_in = m1\<rparr>,
         Create e2 \<lparr>date_in = ''2025-12-08'', employee_name_in = n2, employee_email_in = m2\<rparr>,
         Create e3 \<lparr>date_in = ''2025-12-09'', employee_name_in = n3, employee_email_in = m3\<rparr>]))
     = [''2025-12-08'', ''2025-12-09'', ''2025-12-10'']"
proof (intro conjI)
  show "sorted (map date (getAllBookings db))"
    by (simp add: getAllBookings_def statements_getAllBookings_def sorted_sort_key)
  show m: "mset (getAllBookings db) = mset (rows db)"
    by (simp add: getAllBookings_def statements_getAllBookings_def)
  show "(getAllBookings db = []) = (rows db = [])"
    using m by (metis mset_zero_iff)
  show "apply_op db ListOrdered = db"
    by simp
  have v: "isValidDateFormat tz ''2025-12-10'' = Inr True"
    "isValidDateFormat tz ''2025-12-08'' = Inr True"
    "isValidDateFormat tz ''2025-12-09'' = Inr True" for tz
    by (simp_all add: date_defs)
  let ?i1 = "\<lparr>date_in = ''2025-12-10'', employee_name_in = n1, employee_email_in = m1\<rparr>"
  let ?i2 = "\<lparr>date_in = ''2025-12-08'', employee_name_in = n2, employee_email_in = m2\<rparr>"
  let ?i3 = "\<lparr>date_in = ''2025-12-09'', employee_name_in = n3, employee_email_in = m3\<rparr>"
  define db1 where "db1 = snd (createBooking e1 emptyDb ?i1)"
  define db2 where "db2 = snd (createBooking e2 db1 ?i2)"
  define db3 where "db3 = snd (createBooking e3 db2 ?i3)"
  have r1: "rows db1 = [newRow e1 emptyDb ?i1]"
    unfolding db1_def by (subst createBooking_fresh) (simp_all add: v emptyDb_def)
  have r2: "rows db2 = [newRow e1 emptyDb ?i1, newRow e2 db1 ?i2]"
    unfolding db2_def by (subst createBooking_fresh) (simp_all add: v r1)
  have r3: "rows db3 = [newRow e1 emptyDb ?i1, newRow e2 db1 ?i2, newRow e3 db2 ?i3]"
    unfolding db3_def by (subst createBooking_fresh) (simp_all add: v r2)
  have "run_ops emptyDb [Create e1 ?i1, Create e2 ?i2, Create e3 ?i3] = db3"
    by (simp add: run_ops_def db1_def db2_def db3_def)
  then show "map date (getAllBookings (run_ops emptyDb [Create e1 ?i1, Create e2 ?i2, Create e3 ?i3]))
     = [''2025-12-08'', ''2025-12-09'', ''2025-12-10'']"
    by (simp add: getAllBookings_def statements_getAllBookings_def r3)
qed

subsection \<open>What a successful \<open>createBooking\<close> stores and returns\<close>

lemma orNull_None [simp]: "orNull None = None"
  by (simp add: orNull_def)

lemma orNull_empty [simp]: "orNull (Some []) = None"
  by (simp add: orNull_def)

lemmas rowid_defs = statements_getBookingById_def toJsNumber_def ulp_def nextRowid_def
  newRow_def insertedRow_def







subsection \<open>Create, get, delete\<close>

lemma find_date_append_last:
  "d \<notin> set (map date bs) \<Longrightarrow> date b = d \<Longrightarrow> find (\<lambda>x. date x = d) (bs @ [b]) = Some b"
  by (rule find_append_last) (auto simp: image_iff)




subsection \<open>Several calls for one date\<close>

text \<open>
  \<open>createBooking\<close> is synchronous: a call runs to its end before another one starts, so
  any interleaving of concurrent calls is an order of the whole calls, and
  \<open>attempts_forEach\<close> over a list runs them in that order.
\<close>

lemma attempts_forEach_booked:
  assumes "d \<in> set (map date (rows db))"
    and "\<forall>(env, input)\<in>set as.
           isValidDateFormat (localTZA env) (date_in input) = Inr True \<and> date_in input = d"
  shows "attempts_forEach db as = (replicate (length as) (Inl (DateAlreadyBooked d)), db)"
  using assms(2)
proof (induction as)
  case Nil
  then show ?case by simp
next
  case (Cons a as)
  obtain env input where a: "a = (env, input)"
    by (cases a)
  with Cons.prems have "isValidDateFormat (localTZA env) (date_in input) = Inr True"
    and "date_in input = d"
    by auto
  with assms(1) have "createBooking env db input = (Inl (DateAlreadyBooked d), db)"
    using createBooking_duplicate [of env input db] by simp
  with Cons a show ?case by simp
qed

lemma attempts_forEach_first_wins:
  assumes "d \<notin> set (map date (rows db))"
    and "isValidDateFormat (localTZA env) (date_in input) = Inr True" and "date_in input = d"
    and "\<forall>(env, input)\<in>set as.
           isValidDateFormat (localTZA env) (date_in input) = Inr True \<and> date_in input = d"
  shows "attempts_forEach db ((env, input) # as) =
     (Inr (statements_getBookingById
             \<lparr>rows = rows db @ [newRow env db input], seq = nextRowid db\<rparr>
             (toJsNumber (nextRowid db)))
        # replicate (length as) (Inl (DateAlreadyBooked d)),
      \<lparr>rows = rows db @ [newRow env db input], seq = nextRowid db\<rparr>)"
proof -
  let ?db1 = "\<lparr>rows = rows db @ [newRow env db input], seq = nextRowid db\<rparr>"
  have c: "createBooking env db input
      = (Inr (statements_getBookingById ?db1 (toJsNumber (nextRowid db))), ?db1)"
    using assms(1,2,3) createBooking_fresh [of env input db] by simp
  have "d \<in> set (map date (rows ?db1))"
    using assms(3) by simp
  from attempts_forEach_booked [OF this assms(4)] c show ?thesis
    by simp
qed

lemma live_after_fresh:
  assumes "d \<notin> set (map date (rows db))" and "date b = d"
  shows "live \<lparr>rows = rows db @ [b], seq = s\<rparr> d = [b]"
proof -
  from assms(1) have "filter (\<lambda>x. date x = d) (rows db) = []"
    by (auto simp: filter_empty_conv image_iff)
  with assms(2) show ?thesis
    by (simp add: live_def)
qed




end
